theory Spec2Isabelle
  imports Complex_Main "HOL-Library.Product_Lexorder"
begin

unbundle bit_operations_syntax

section \<open>Numbers of the simulator\<close>

text \<open>
  Every number handled by \<^verbatim>\<open>balloon_sim.py\<close> is a Python or numpy double. A finite
  double is represented by the real number it denotes, and sums, products, quotients and
  the \<^verbatim>\<open>math\<close> functions are those of the reals: rounding errors, overflow of a finite
  result and the sign of zero are not represented, with the one exception of the
  remainder \<^verbatim>\<open>%\<close> below. An equation between computed values therefore holds of the
  source up to rounding error. Where the doubles can take another branch than the reals
  (an overflowing product, an \<^verbatim>\<open>asin\<close> argument rounded above 1, both ending in the
  handler for \<^verbatim>\<open>ValueError\<close>), the properties below allow for the result the source
  then gives. The three special values are kept apart, because the source tests for one
  of them (\<^verbatim>\<open>math.isnan\<close>) and the \<^verbatim>\<open>math\<close> functions raise on another.
\<close>

datatype pyfloat = Finite real | PosInf | NegInf | NaN

datatype error = ValueError | OverflowError | IndexError

fun isnan :: "pyfloat \<Rightarrow> bool" where
  "isnan NaN = True"
| "isnan _ = False"

fun is_finite :: "pyfloat \<Rightarrow> bool" where
  "is_finite (Finite _) = True"
| "is_finite _ = False"

text \<open>Comparisons: every comparison with NaN is false.\<close>

fun flt :: "pyfloat \<Rightarrow> pyfloat \<Rightarrow> bool" where
  "flt NaN _ = False"
| "flt _ NaN = False"
| "flt (Finite a) (Finite b) = (a < b)"
| "flt (Finite _) PosInf = True"
| "flt (Finite _) NegInf = False"
| "flt PosInf _ = False"
| "flt NegInf NegInf = False"
| "flt NegInf _ = True"

fun feq :: "pyfloat \<Rightarrow> pyfloat \<Rightarrow> bool" where
  "feq NaN _ = False"
| "feq _ NaN = False"
| "feq a b = (a = b)"

definition fle :: "pyfloat \<Rightarrow> pyfloat \<Rightarrow> bool" where
  "fle a b = (flt a b \<or> feq a b)"

definition fgt :: "pyfloat \<Rightarrow> pyfloat \<Rightarrow> bool" where
  "fgt a b = flt b a"

definition fge :: "pyfloat \<Rightarrow> pyfloat \<Rightarrow> bool" where
  "fge a b = fle b a"

text \<open>Arithmetic on the special values follows IEEE 754.\<close>

fun fneg :: "pyfloat \<Rightarrow> pyfloat" where
  "fneg (Finite a) = Finite (- a)"
| "fneg PosInf = NegInf"
| "fneg NegInf = PosInf"
| "fneg NaN = NaN"

fun fadd :: "pyfloat \<Rightarrow> pyfloat \<Rightarrow> pyfloat" where
  "fadd NaN _ = NaN"
| "fadd _ NaN = NaN"
| "fadd (Finite a) (Finite b) = Finite (a + b)"
| "fadd (Finite _) b = b"
| "fadd PosInf NegInf = NaN"
| "fadd NegInf PosInf = NaN"
| "fadd a _ = a"

definition fsub :: "pyfloat \<Rightarrow> pyfloat \<Rightarrow> pyfloat" where
  "fsub a b = fadd a (fneg b)"

text \<open>The sign of a value that is not NaN: \<open>-1\<close>, \<open>0\<close> or \<open>1\<close>.\<close>

fun fsign :: "pyfloat \<Rightarrow> int" where
  "fsign (Finite a) = (if a < 0 then - 1 else if a = 0 then 0 else 1)"
| "fsign PosInf = 1"
| "fsign NegInf = - 1"
| "fsign NaN = 0"

definition inf_of_sign :: "int \<Rightarrow> pyfloat" where
  "inf_of_sign s = (if s = 0 then NaN else if s < 0 then NegInf else PosInf)"

fun fmul :: "pyfloat \<Rightarrow> pyfloat \<Rightarrow> pyfloat" where
  "fmul NaN _ = NaN"
| "fmul _ NaN = NaN"
| "fmul (Finite a) (Finite b) = Finite (a * b)"
| "fmul a b = inf_of_sign (fsign a * fsign b)"

text \<open>
  Division. Every Python-level division of the source has a non-zero constant divisor;
  the one division by a computed value (\<^verbatim>\<open>fraction\<close> in \<^verbatim>\<open>interpolate_wind\<close>) is a
  numpy division, which yields an infinity or NaN for a zero divisor.
\<close>

fun fdiv :: "pyfloat \<Rightarrow> pyfloat \<Rightarrow> pyfloat" where
  "fdiv NaN _ = NaN"
| "fdiv _ NaN = NaN"
| "fdiv (Finite a) (Finite b) =
     (if b = 0 then inf_of_sign (fsign (Finite a)) else Finite (a / b))"
| "fdiv (Finite a) _ = Finite 0"
| "fdiv a (Finite b) = inf_of_sign (fsign a * (if b < 0 then - 1 else 1))"
| "fdiv _ _ = NaN"

text \<open>Rounding to the nearest integer, ties to the even one.\<close>

definition round_half_even :: "real \<Rightarrow> int" where
  "round_half_even x =
     (let f = \<lfloor>x\<rfloor>; d = x - of_int f
      in if d < 1 / 2 then f else if 1 / 2 < d then f + 1 else if even f then f else f + 1)"

text \<open>
  Rounding of a real to binary64, to nearest and ties to even: the spacing of the doubles
  around \<open>x\<close> is \<open>2 ^ (e - 52)\<close>, where \<open>e\<close> is the binary exponent of \<open>x\<close>, not below
  \<open>-1022\<close> (subnormal range); a rounded magnitude of \<open>2 ^ 1024\<close> or more is an infinity.
\<close>

definition pow2 :: "int \<Rightarrow> real" where
  "pow2 k = (if 0 \<le> k then 2 ^ nat k else 1 / 2 ^ nat (- k))"

definition binade :: "real \<Rightarrow> int" where
  "binade x = max \<lfloor>log 2 \<bar>x\<bar>\<rfloor> (- 1022)"

definition round64 :: "real \<Rightarrow> pyfloat" where
  "round64 x =
     (if x = 0 then Finite 0
      else
        let q = pow2 (binade x - 52);
            y = of_int (round_half_even (x / q)) * q
        in if 2 ^ 1024 \<le> \<bar>y\<bar> then (if x < 0 then NegInf else PosInf) else Finite y)"

text \<open>
  \<^verbatim>\<open>x % m\<close> on doubles, for a non-zero constant \<open>m\<close>. Python and numpy compute the C
  remainder \<^verbatim>\<open>fmod(x, m)\<close>, which is exact and has the sign of \<open>x\<close>, and add \<open>m\<close> to it
  when it is non-zero and its sign differs from that of \<open>m\<close>. This addition is a double
  addition: it is the one place where the rounding of the source changes a result by
  more than a rounding error (a tiny negative \<open>x\<close> gives \<open>x % m = m\<close>), so it is rounded
  in the model. An infinite or NaN dividend gives NaN.
\<close>

definition c_fmod :: "real \<Rightarrow> real \<Rightarrow> real" where
  "c_fmod x m = x - m * of_int (if 0 \<le> x / m then \<lfloor>x / m\<rfloor> else \<lceil>x / m\<rceil>)"

definition float_rem :: "real \<Rightarrow> real \<Rightarrow> pyfloat" where
  "float_rem x m =
     (let md = c_fmod x m
      in if md \<noteq> 0 \<and> (m < 0) \<noteq> (md < 0) then round64 (md + m) else Finite md)"

fun fmod :: "pyfloat \<Rightarrow> real \<Rightarrow> pyfloat" where
  "fmod (Finite a) m = float_rem a m"
| "fmod _ m = NaN"


fun fabs :: "pyfloat \<Rightarrow> pyfloat" where
  "fabs (Finite a) = Finite \<bar>a\<bar>"
| "fabs PosInf = PosInf"
| "fabs NegInf = PosInf"
| "fabs NaN = NaN"

subsection \<open>The \<^verbatim>\<open>math\<close> module\<close>

fun radians :: "pyfloat \<Rightarrow> pyfloat" where
  "radians (Finite a) = Finite (a * pi / 180)"
| "radians x = x"

fun degrees :: "pyfloat \<Rightarrow> pyfloat" where
  "degrees (Finite a) = Finite (a * 180 / pi)"
| "degrees x = x"

text \<open>\<^verbatim>\<open>math.sin\<close> and \<^verbatim>\<open>math.cos\<close> raise \<^verbatim>\<open>ValueError\<close> on an infinity.\<close>

fun math_sin :: "pyfloat \<Rightarrow> error + pyfloat" where
  "math_sin (Finite a) = Inr (Finite (sin a))"
| "math_sin NaN = Inr NaN"
| "math_sin _ = Inl ValueError"

fun math_cos :: "pyfloat \<Rightarrow> error + pyfloat" where
  "math_cos (Finite a) = Inr (Finite (cos a))"
| "math_cos NaN = Inr NaN"
| "math_cos _ = Inl ValueError"

text \<open>\<^verbatim>\<open>math.asin\<close> raises \<^verbatim>\<open>ValueError\<close> outside \<open>[-1, 1]\<close>.\<close>

fun math_asin :: "pyfloat \<Rightarrow> error + pyfloat" where
  "math_asin (Finite a) = (if - 1 \<le> a \<and> a \<le> 1 then Inr (Finite (arcsin a)) else Inl ValueError)"
| "math_asin NaN = Inr NaN"
| "math_asin _ = Inl ValueError"

definition atan2_real :: "real \<Rightarrow> real \<Rightarrow> real" where
  "atan2_real y x =
     (if 0 < x then arctan (y / x)
      else if x < 0 then (if 0 \<le> y then arctan (y / x) + pi else arctan (y / x) - pi)
      else if 0 < y then pi / 2
      else if y < 0 then - (pi / 2)
      else 0)"

text \<open>\<^verbatim>\<open>math.atan2\<close> never raises; its values at the infinities are those of C99.\<close>

fun math_atan2 :: "pyfloat \<Rightarrow> pyfloat \<Rightarrow> pyfloat" where
  "math_atan2 NaN _ = NaN"
| "math_atan2 _ NaN = NaN"
| "math_atan2 (Finite y) (Finite x) = Finite (atan2_real y x)"
| "math_atan2 (Finite y) PosInf = Finite 0"
| "math_atan2 (Finite y) NegInf = Finite (if 0 \<le> y then pi else - pi)"
| "math_atan2 PosInf (Finite x) = Finite (pi / 2)"
| "math_atan2 NegInf (Finite x) = Finite (- (pi / 2))"
| "math_atan2 PosInf PosInf = Finite (pi / 4)"
| "math_atan2 NegInf PosInf = Finite (- (pi / 4))"
| "math_atan2 PosInf NegInf = Finite (3 * pi / 4)"
| "math_atan2 NegInf NegInf = Finite (- (3 * pi / 4))"

section \<open>Position update\<close>

definition EARTH_RADIUS_KM :: pyfloat where
  "EARTH_RADIUS_KM = Finite 6371"

definition UPDATE_INTERVAL :: pyfloat where
  "UPDATE_INTERVAL = Finite 1"

text \<open>
  \<^verbatim>\<open>update_position\<close> reads the module constant \<^verbatim>\<open>UPDATE_INTERVAL\<close>; the model takes
  it as its first argument, and the simulation loop passes \<^const>\<open>UPDATE_INTERVAL\<close>.
\<close>

definition distance_km :: "pyfloat \<Rightarrow> pyfloat \<Rightarrow> pyfloat" where
  "distance_km interval speed_knots =
     (let speed_kmh = fmul speed_knots (Finite 1.852)
      in fmul speed_kmh (fdiv interval (Finite 3600)))"

definition normalized_bearing :: "pyfloat \<Rightarrow> pyfloat" where
  "normalized_bearing bearing = fmod (fadd bearing (Finite 180)) 360"

text \<open>
  The body of the \<^verbatim>\<open>try\<close> block up to the two assignments: the new latitude and
  longitude in radians, or the exception raised by a \<^verbatim>\<open>math\<close> function. The operands
  are evaluated left to right, as Python does.
\<close>

definition geodesic :: "pyfloat \<Rightarrow> pyfloat \<Rightarrow> pyfloat \<Rightarrow> pyfloat \<Rightarrow> error + (pyfloat \<times> pyfloat)" where
  "geodesic lat_radians lon_radians bearing_radians d_km =
     (let ang = fdiv d_km EARTH_RADIUS_KM in
      case math_sin lat_radians of Inl e \<Rightarrow> Inl e | Inr sin_lat \<Rightarrow>
      case math_cos ang of Inl e \<Rightarrow> Inl e | Inr cos_ang \<Rightarrow>
      case math_cos lat_radians of Inl e \<Rightarrow> Inl e | Inr cos_lat \<Rightarrow>
      case math_sin ang of Inl e \<Rightarrow> Inl e | Inr sin_ang \<Rightarrow>
      case math_cos bearing_radians of Inl e \<Rightarrow> Inl e | Inr cos_b \<Rightarrow>
      case math_asin (fadd (fmul sin_lat cos_ang) (fmul (fmul cos_lat sin_ang) cos_b)) of
        Inl e \<Rightarrow> Inl e | Inr new_lat \<Rightarrow>
      case math_sin bearing_radians of Inl e \<Rightarrow> Inl e | Inr sin_b \<Rightarrow>
      case math_sin new_lat of Inl e \<Rightarrow> Inl e | Inr sin_new_lat \<Rightarrow>
      Inr (new_lat,
           fadd lon_radians
             (math_atan2 (fmul (fmul sin_b sin_ang) cos_lat)
                         (fsub cos_ang (fmul sin_lat sin_new_lat)))))"

text \<open>
  \<^verbatim>\<open>update_position\<close>: the early return for a non-positive distance, the NaN test on
  the computed position, and the handler for \<^verbatim>\<open>ValueError\<close>; any other exception
  would leave the function.
\<close>

definition update_position ::
  "pyfloat \<Rightarrow> pyfloat \<Rightarrow> pyfloat \<Rightarrow> pyfloat \<Rightarrow> pyfloat \<Rightarrow> error + (pyfloat \<times> pyfloat)" where
  "update_position interval lat lon bearing speed_knots =
     (let d_km = distance_km interval speed_knots in
      if fle d_km (Finite 0) then Inr (lat, lon)
      else
        (case geodesic (radians lat) (radians lon) (radians (normalized_bearing bearing)) d_km of
           Inr (new_lat, new_lon) \<Rightarrow>
             if isnan new_lat \<or> isnan new_lon then Inr (lat, lon)
             else Inr (degrees new_lat, degrees new_lon)
         | Inl ValueError \<Rightarrow> Inr (lat, lon)
         | Inl e \<Rightarrow> Inl e))"

section \<open>NMEA sentences\<close>

subsection \<open>String formatting\<close>

definition digit_char :: "nat \<Rightarrow> char" where
  "digit_char d = ''0123456789ABCDEF'' ! (d mod 16)"

fun str_nat :: "nat \<Rightarrow> string" where
  "str_nat n = (if n < 10 then [digit_char n] else str_nat (n div 10) @ [digit_char (n mod 10)])"

fun hex_nat :: "nat \<Rightarrow> string" where
  "hex_nat n = (if n < 16 then [digit_char n] else hex_nat (n div 16) @ [digit_char (n mod 16)])"

definition zfill :: "nat \<Rightarrow> string \<Rightarrow> string" where
  "zfill w s = replicate (w - length s) CHR ''0'' @ s"

text \<open>The format \<^verbatim>\<open>0wd\<close> of an integer: zero-padded to width \<open>w\<close>, the sign included.\<close>

definition format_d :: "nat \<Rightarrow> int \<Rightarrow> string" where
  "format_d w i =
     (if i < 0 then ''-'' @ zfill (w - 1) (str_nat (nat (- i))) else zfill w (str_nat (nat i)))"

text \<open>The format \<^verbatim>\<open>02X\<close> of a non-negative integer.\<close>

definition format_02X :: "nat \<Rightarrow> string" where
  "format_02X n = zfill 2 (hex_nat n)"

text \<open>
  The format \<^verbatim>\<open>.pf\<close> of a double: the decimal expansion of the value rounded to \<open>p\<close>
  places, ties to even; \<^verbatim>\<open>nan\<close>, \<^verbatim>\<open>inf\<close> and \<^verbatim>\<open>-inf\<close> for the special values.
\<close>

fun format_f :: "nat \<Rightarrow> pyfloat \<Rightarrow> string" where
  "format_f p (Finite a) =
     (let n = nat (round_half_even (\<bar>a\<bar> * 10 ^ p))
      in (if a < 0 then ''-'' else []) @ str_nat (n div 10 ^ p) @ ''.'' @
         zfill p (str_nat (n mod 10 ^ p)))"
| "format_f p PosInf = ''inf''"
| "format_f p NegInf = ''-inf''"
| "format_f p NaN = ''nan''"

text \<open>
  \<^verbatim>\<open>int(x)\<close> truncates towards zero; it raises \<^verbatim>\<open>ValueError\<close> on NaN and
  \<^verbatim>\<open>OverflowError\<close> on an infinity.
\<close>

fun py_int :: "pyfloat \<Rightarrow> error + int" where
  "py_int (Finite a) = Inr (if 0 \<le> a then \<lfloor>a\<rfloor> else \<lceil>a\<rceil>)"
| "py_int NaN = Inl ValueError"
| "py_int _ = Inl OverflowError"

text \<open>The clock: the fields of \<^verbatim>\<open>time.gmtime()\<close> that the format \<^verbatim>\<open>%H%M%S.6\<close> reads.\<close>

record struct_time =
  tm_hour :: nat
  tm_min :: nat
  tm_sec :: nat

definition strftime :: "struct_time \<Rightarrow> string" where
  "strftime t =
     zfill 2 (str_nat (tm_hour t)) @ zfill 2 (str_nat (tm_min t)) @ zfill 2 (str_nat (tm_sec t)) @ ''.6''"

subsection \<open>Checksum and sentences\<close>

definition calculate_checksum :: "string \<Rightarrow> string" where
  "calculate_checksum nmea_sentence =
     format_02X (fold (\<lambda>char checksum. checksum XOR of_char char) nmea_sentence 0)"

definition wrap_sentence :: "string \<Rightarrow> string" where
  "wrap_sentence body = ''$'' @ body @ ''*'' @ calculate_checksum body"

definition rmc_body :: "string \<Rightarrow> string \<Rightarrow> string \<Rightarrow> string \<Rightarrow> string \<Rightarrow> pyfloat \<Rightarrow> string" where
  "rmc_body time_str lat_field lat_hemisphere lon_field lon_hemisphere speed_knots =
     ''GNRMC,'' @ time_str @ '',A,'' @ lat_field @ '','' @ lat_hemisphere @ '','' @
     lon_field @ '','' @ lon_hemisphere @ '','' @ format_f 2 speed_knots @ '',,,002.7,E,N''"

definition gga_body :: "string \<Rightarrow> string \<Rightarrow> string \<Rightarrow> string \<Rightarrow> string \<Rightarrow> pyfloat \<Rightarrow> string" where
  "gga_body time_str lat_field lat_hemisphere lon_field lon_hemisphere alt =
     ''GNGGA,'' @ time_str @ '','' @ lat_field @ '','' @ lat_hemisphere @ '','' @
     lon_field @ '','' @ lon_hemisphere @ '',1,08,0.9,'' @ format_f 1 alt @ '',M,0.0,M,,''"

definition vtg_body :: "pyfloat \<Rightarrow> string" where
  "vtg_body speed_knots = ''GNVTG,,T,,M,'' @ format_f 2 speed_knots @ '',N,,K,N''"

text \<open>
  \<^verbatim>\<open>create_nmea_sentences\<close>; the clock reading is its first argument. The two
  conversions \<^verbatim>\<open>int(abs(lat))\<close> and \<^verbatim>\<open>int(abs(lon))\<close> are the statements that can raise.
\<close>

definition create_nmea_sentences ::
  "struct_time \<Rightarrow> pyfloat \<Rightarrow> pyfloat \<Rightarrow> pyfloat \<Rightarrow> pyfloat \<Rightarrow> error + string list" where
  "create_nmea_sentences now lat lon alt speed_knots =
     (let alt = fdiv alt (Finite 3.28084) in
      case py_int (fabs lat) of Inl e \<Rightarrow> Inl e | Inr lat_deg \<Rightarrow>
      let lat_min = fmul (fsub (fabs lat) (Finite (of_int lat_deg))) (Finite 60);
          lat_hemisphere = (if fge lat (Finite 0) then ''N'' else ''S'')
      in
      case py_int (fabs lon) of Inl e \<Rightarrow> Inl e | Inr lon_deg \<Rightarrow>
      let lon_min = fmul (fsub (fabs lon) (Finite (of_int lon_deg))) (Finite 60);
          lon_hemisphere = (if fge lon (Finite 0) then ''E'' else ''W'');
          time_str = strftime now;
          lat_field = format_d 2 lat_deg @ format_f 6 lat_min;
          lon_field = format_d 3 lon_deg @ format_f 6 lon_min;
          rmc_sentence = rmc_body time_str lat_field lat_hemisphere lon_field lon_hemisphere speed_knots;
          gga_sentence = gga_body time_str lat_field lat_hemisphere lon_field lon_hemisphere alt;
          vtg_sentence = vtg_body speed_knots
      in Inr [wrap_sentence rmc_sentence, wrap_sentence gga_sentence, wrap_sentence vtg_sentence])"

text \<open>
  Reading a sentence back: the characters strictly between the leading \<^verbatim>\<open>$\<close> and the
  first \<^verbatim>\<open>*\<close>, and the characters after that \<^verbatim>\<open>*\<close>.
\<close>

definition sentence_body :: "string \<Rightarrow> string" where
  "sentence_body s = takeWhile (\<lambda>c. c \<noteq> CHR ''*'') (tl s)"

definition sentence_trailer :: "string \<Rightarrow> string" where
  "sentence_trailer s = tl (dropWhile (\<lambda>c. c \<noteq> CHR ''*'') (tl s))"

definition upper_hex_digit :: "char \<Rightarrow> bool" where
  "upper_hex_digit c = (c \<in> set ''0123456789ABCDEF'')"

text \<open>
  The checksum in the words of the protocol: the XOR of the character codes of a body,
  and the rendering of a value below 256 as two uppercase hexadecimal digits.
\<close>

primrec xor_of_codes :: "string \<Rightarrow> nat" where
  "xor_of_codes [] = 0"
| "xor_of_codes (c # cs) = of_char c XOR xor_of_codes cs"

definition two_hex_digits :: "nat \<Rightarrow> string" where
  "two_hex_digits n = [''0123456789ABCDEF'' ! (n div 16), ''0123456789ABCDEF'' ! (n mod 16)]"

text \<open>The comma-separated fields of a sentence body.\<close>

fun split_commas :: "string \<Rightarrow> string list" where
  "split_commas [] = [[]]"
| "split_commas (c # cs) =
     (if c = CHR '','' then [] # split_commas cs
      else (case split_commas cs of [] \<Rightarrow> [[c]] | f # fs \<Rightarrow> (c # f) # fs))"

text \<open>The characters of formatted integers, formatted doubles and the time field.\<close>

definition number_chars :: "char set" where
  "number_chars = set ''0123456789ABCDEF-.naif''"

section \<open>Wind profile\<close>

text \<open>
  \<^verbatim>\<open>winds_df\<close>: the rows of the wind table in file order, with the three columns named
  in \<^verbatim>\<open>read_csv\<close>. A column of whole numbers is read as 64-bit integers; up to a
  magnitude of \<open>2 ^ 53\<close> such an integer and the double of the same value give the same
  results in \<^verbatim>\<open>interpolate_wind\<close>, and the property of the interpolation below is
  stated within that bound (beyond it the integer subtraction of the source wraps).
\<close>

record wind_row =
  height_ft :: pyfloat
  bearing_deg :: pyfloat
  speed_knots :: pyfloat

text \<open>
  \<^verbatim>\<open>sort_values(by="height_ft")\<close>: ascending, NaN last. The sort of the model is stable;
  pandas does not promise an order among rows of equal height.
\<close>

fun sort_rank :: "pyfloat \<Rightarrow> nat \<times> real" where
  "sort_rank NegInf = (0, 0)"
| "sort_rank (Finite a) = (1, a)"
| "sort_rank PosInf = (2, 0)"
| "sort_rank NaN = (3, 0)"

definition sort_values :: "wind_row list \<Rightarrow> wind_row list" where
  "sort_values df = sort_key (\<lambda>r. sort_rank (height_ft r)) df"

text \<open>
  \<^verbatim>\<open>.iloc[0]\<close> and \<^verbatim>\<open>.iloc[-1]\<close> on a frame raise \<^verbatim>\<open>IndexError\<close> when the frame has
  no row.
\<close>

definition iloc_first :: "'a list \<Rightarrow> error + 'a" where
  "iloc_first rows = (case rows of [] \<Rightarrow> Inl IndexError | r # _ \<Rightarrow> Inr r)"

definition iloc_last :: "'a list \<Rightarrow> error + 'a" where
  "iloc_last rows = (if rows = [] then Inl IndexError else Inr (last rows))"

text \<open>
  \<^verbatim>\<open>.empty\<close> of a row: the row selected by \<^verbatim>\<open>iloc\<close> is a Series holding the three
  column entries, so it is never empty.
\<close>

definition series_empty :: "wind_row \<Rightarrow> bool" where
  "series_empty r = False"

definition interpolate_wind :: "wind_row list \<Rightarrow> pyfloat \<Rightarrow> error + (pyfloat \<times> pyfloat)" where
  "interpolate_wind winds_df altitude_ft =
     (let sorted_winds = sort_values winds_df;
          exact_match = filter (\<lambda>r. feq (height_ft r) altitude_ft) sorted_winds
      in
      if exact_match \<noteq> [] then Inr (bearing_deg (hd exact_match), speed_knots (hd exact_match))
      else
        case iloc_last (filter (\<lambda>r. flt (height_ft r) altitude_ft) sorted_winds) of
          Inl e \<Rightarrow> Inl e | Inr lower_wind \<Rightarrow>
        case iloc_first (filter (\<lambda>r. fgt (height_ft r) altitude_ft) sorted_winds) of
          Inl e \<Rightarrow> Inl e | Inr upper_wind \<Rightarrow>
        if series_empty lower_wind then Inr (bearing_deg upper_wind, speed_knots upper_wind)
        else if series_empty upper_wind then Inr (bearing_deg lower_wind, speed_knots lower_wind)
        else
          let lower_bearing = bearing_deg lower_wind;
              upper_bearing = bearing_deg upper_wind;
              angle_difference = fmod (fsub upper_bearing lower_bearing) 360;
              angle_difference =
                (if fgt angle_difference (Finite 180) then fsub angle_difference (Finite 360)
                 else angle_difference);
              fraction = fdiv (fsub altitude_ft (height_ft lower_wind))
                              (fsub (height_ft upper_wind) (height_ft lower_wind));
              interpolated_bearing = fmod (fadd lower_bearing (fmul fraction angle_difference)) 360;
              interpolated_speed =
                fadd (speed_knots lower_wind)
                     (fmul fraction (fsub (speed_knots upper_wind) (speed_knots lower_wind)))
          in Inr (interpolated_bearing, interpolated_speed))"

section \<open>Simulation loop\<close>

record flight_state =
  balloon_lat :: pyfloat
  balloon_lon :: pyfloat
  balloon_alt_ft :: pyfloat
  vertical_speed_mps :: pyfloat

definition initial_state :: flight_state where
  "initial_state =
     \<lparr>balloon_lat = Finite 57.89579925190799, balloon_lon = Finite 11.745555042076292,
      balloon_alt_ft = Finite 106, vertical_speed_mps = Finite 0\<rparr>"

datatype phase = Initializing | Running | Exited

text \<open>
  The start of the script after the wind table is read: the serial port is opened, and
  the script exits when that fails; otherwise it waits and enters the loop. The wind
  table is not looked at.
\<close>

definition startup :: "bool \<Rightarrow> wind_row list \<Rightarrow> phase" where
  "startup serial_opens winds_df = (if serial_opens then Running else Exited)"

text \<open>
  One turn of the \<^verbatim>\<open>while True\<close> loop: the new flight state and the lines written to
  the serial port, or the exception that leaves the loop. The vertical speed is the
  value the keyboard thread has left in the state.
\<close>

definition tick :: "wind_row list \<Rightarrow> struct_time \<Rightarrow> flight_state \<Rightarrow> error + (flight_state \<times> string list)" where
  "tick winds_df now st =
     (let alt = fadd (balloon_alt_ft st)
                  (fmul (fmul (vertical_speed_mps st) UPDATE_INTERVAL) (Finite 3.281)) in
      case interpolate_wind winds_df alt of
        Inl e \<Rightarrow> Inl e | Inr (wind_bearing, wind_speed_knots) \<Rightarrow>
      case update_position UPDATE_INTERVAL (balloon_lat st) (balloon_lon st) wind_bearing wind_speed_knots of
        Inl e \<Rightarrow> Inl e | Inr (lat, lon) \<Rightarrow>
      case create_nmea_sentences now lat lon alt wind_speed_knots of
        Inl e \<Rightarrow> Inl e | Inr nmea_sentences \<Rightarrow>
      Inr (st\<lparr>balloon_lat := lat, balloon_lon := lon, balloon_alt_ft := alt\<rparr>,
           map (\<lambda>sentence. sentence @ [CHR 0x0D, CHR 0x0A]) nmea_sentences))"

section \<open>Auxiliary facts\<close>

subsection \<open>Sorting and selecting rows\<close>

lemma sort_rank_inj: "sort_rank a = sort_rank b \<Longrightarrow> a = b"
  by (cases a; cases b) auto

lemma sort_rank_le_flt: "flt a c \<Longrightarrow> sort_rank b \<le> sort_rank a \<Longrightarrow> \<not> isnan b \<Longrightarrow> flt b c"
  by (cases a; cases b; cases c) auto

lemma sort_rank_ge_flt: "flt c a \<Longrightarrow> sort_rank a \<le> sort_rank b \<Longrightarrow> \<not> isnan b \<Longrightarrow> flt c b"
  by (cases a; cases b; cases c) auto

lemma sort_rank_less_flt: "\<not> isnan a \<Longrightarrow> \<not> isnan b \<Longrightarrow> sort_rank a < sort_rank b \<longleftrightarrow> flt a b"
  by (cases a; cases b) auto

lemma flt_not_nan: "flt a b \<Longrightarrow> \<not> isnan a \<and> \<not> isnan b"
  by (cases a; cases b) auto





lemma set_sort_values: "set (sort_values df) = set df"
  by (simp add: sort_values_def)

lemma interpolate_wind_no_lower:
  assumes "\<forall>r\<in>set df. \<not> fle (height_ft r) a"
  shows "interpolate_wind df a = Inl IndexError"
proof -
  have "filter (\<lambda>r. feq (height_ft r) a) (sort_values df) = []"
    using assms by (auto simp: filter_empty_conv set_sort_values fle_def)
  moreover have "filter (\<lambda>r. flt (height_ft r) a) (sort_values df) = []"
    using assms by (auto simp: filter_empty_conv set_sort_values fle_def)
  ultimately show ?thesis
    by (simp add: interpolate_wind_def iloc_last_def)
qed

lemma interpolate_wind_no_upper:
  assumes "\<forall>r\<in>set df. \<not> fge (height_ft r) a"
  shows "interpolate_wind df a = Inl IndexError"
proof -
  have "filter (\<lambda>r. feq (height_ft r) a) (sort_values df) = []"
    using assms by (cases a) (auto simp: filter_empty_conv set_sort_values fle_def fge_def elim!: feq.elims)
  moreover have "filter (\<lambda>r. fgt (height_ft r) a) (sort_values df) = []"
    using assms by (auto simp: filter_empty_conv set_sort_values fle_def fge_def fgt_def)
  ultimately show ?thesis
    by (auto simp: interpolate_wind_def iloc_first_def iloc_last_def Let_def split: sum.splits if_splits)
qed


lemma pow2_powr: "pow2 k = 2 powr (of_int k)"
  by (simp add: pow2_def powr_int)

lemma pow2_mono: "j \<le> k \<Longrightarrow> pow2 j \<le> pow2 k"
  by (simp add: pow2_powr)


















subsection \<open>Trigonometry of the position update\<close>


lemma atan2_real_bounded: "- pi \<le> atan2_real y x \<and> atan2_real y x \<le> pi"
proof -
  have b: "- (pi / 2) < arctan (y / x)" "arctan (y / x) < pi / 2"
    using arctan_bounded [of "y / x"] by auto
  have neg: "arctan (y / x) \<le> 0" if "x < 0" "0 \<le> y"
    using that by (simp add: divide_nonneg_neg)
  have pos: "0 \<le> arctan (y / x)" if "x < 0" "y < 0"
    using that by (simp add: divide_nonpos_neg)
  show ?thesis
    using b neg pos pi_gt_zero by (auto simp: atan2_real_def)
qed


lemma math_sin_error: "math_sin x = Inl e \<Longrightarrow> e = ValueError"
  by (cases x) auto

lemma math_cos_error: "math_cos x = Inl e \<Longrightarrow> e = ValueError"
  by (cases x) auto

lemma math_asin_error: "math_asin x = Inl e \<Longrightarrow> e = ValueError"
  by (cases x) (auto split: if_splits)

lemma geodesic_error: "geodesic p l t d = Inl e \<Longrightarrow> e = ValueError"
  unfolding geodesic_def Let_def
  by (auto split: sum.splits dest: math_sin_error math_cos_error math_asin_error)


lemma math_atan2_range:
  "case math_atan2 y x of Finite r \<Rightarrow> - pi \<le> r \<and> r \<le> pi | NaN \<Rightarrow> True | _ \<Rightarrow> False"
proof -
  have "0 < pi" by simp
  then have bnds: "- pi \<le> pi / 2" "pi / 2 \<le> pi" "- pi \<le> pi / 4" "pi / 4 \<le> pi"
    "- pi \<le> 3 * pi / 4" "3 * pi / 4 \<le> pi" "- pi \<le> 0" "- pi \<le> pi"
    "- pi \<le> - (pi / 2)" "- (pi / 2) \<le> pi" "- pi \<le> - (pi / 4)" "- (pi / 4) \<le> pi"
    "- pi \<le> - (3 * pi / 4)" "- (3 * pi / 4) \<le> pi"
    by linarith+
  show ?thesis
    by (cases y; cases x) (simp_all add: atan2_real_bounded bnds)
qed

lemma math_asin_range:
  "math_asin a = Inr v \<Longrightarrow> v = NaN \<or> (\<exists>r. v = Finite r \<and> - (pi / 2) \<le> r \<and> r \<le> pi / 2)"
  using arcsin_bounded
  by (cases a) (auto split: if_splits)


lemma geodesic_finite_or_nan:
  assumes "geodesic p (Finite l) t d = Inr (new_lat, new_lon)"
  shows "(isnan new_lat \<or> is_finite new_lat) \<and> (isnan new_lon \<or> is_finite new_lon)"
proof -
  from assms obtain a y' x' where
    lat: "math_asin a = Inr new_lat" and lon: "new_lon = fadd (Finite l) (math_atan2 y' x')"
    unfolding geodesic_def Let_def by (auto split: sum.splits)
  from math_asin_range [OF lat] have "isnan new_lat \<or> is_finite new_lat"
    by auto
  moreover from math_atan2_range [of y' x'] lon have "isnan new_lon \<or> is_finite new_lon"
    by (cases "math_atan2 y' x'") auto
  ultimately show ?thesis by simp
qed

lemma degrees_is_finite: "is_finite (degrees x) = is_finite x"
  by (cases x) simp_all








subsection \<open>Checksum and sentence structure\<close>

declare str_nat.simps [simp del] hex_nat.simps [simp del]

lemma xor_nat_less_256:
  fixes a b :: nat
  assumes "a < 256" and "b < 256"
  shows "a XOR b < 256"
proof -
  have "int a XOR int b < 2 ^ 8"
    using assms by (intro XOR_upper) simp_all
  then have "int (a XOR b) < 256"
    by (simp add: of_nat_xor_eq)
  then show ?thesis by linarith
qed

lemma fold_xor_less_256:
  "acc < 256 \<Longrightarrow> fold (\<lambda>char checksum. checksum XOR of_char char) s acc < (256 :: nat)"
  by (induction s arbitrary: acc) (simp_all add: xor_nat_less_256)

lemma digit_char_hex: "upper_hex_digit (digit_char d)"
  unfolding upper_hex_digit_def digit_char_def
  by (rule nth_mem) simp

lemma hex_nat_small: "n < 16 \<Longrightarrow> hex_nat n = [digit_char n]"
  by (simp add: hex_nat.simps)

lemma format_02X_byte:
  assumes "n < 256"
  shows "length (format_02X n) = 2 \<and> list_all upper_hex_digit (format_02X n)"
proof (cases "n < 16")
  case True
  then show ?thesis
    using digit_char_hex [of n]
    by (simp add: format_02X_def zfill_def hex_nat_small upper_hex_digit_def)
next
  case False
  moreover from assms have "n div 16 < 16" by simp
  ultimately have "hex_nat n = [digit_char (n div 16), digit_char (n mod 16)]"
    by (simp add: hex_nat.simps [of n] hex_nat_small)
  then show ?thesis
    by (simp add: format_02X_def zfill_def digit_char_hex)
qed

lemma calculate_checksum_shape:
  "length (calculate_checksum body) = 2 \<and> list_all upper_hex_digit (calculate_checksum body)"
  unfolding calculate_checksum_def
  by (rule format_02X_byte) (simp add: fold_xor_less_256)

lemma fold_xor_codes:
  "fold (\<lambda>char checksum. checksum XOR of_char char) s acc = acc XOR xor_of_codes s"
  by (induction s arbitrary: acc) (simp_all add: ac_simps)

lemma xor_of_codes_less_256: "xor_of_codes s < 256"
  by (induction s) (simp_all add: xor_nat_less_256)

lemma format_02X_two_hex_digits:
  assumes "n < 256"
  shows "format_02X n = two_hex_digits n"
proof (cases "n < 16")
  case True
  then show ?thesis
    by (simp add: format_02X_def zfill_def hex_nat_small two_hex_digits_def digit_char_def)
next
  case False
  moreover from assms have "n div 16 < 16" by simp
  ultimately have "hex_nat n = [digit_char (n div 16), digit_char (n mod 16)]"
    by (simp add: hex_nat.simps [of n] hex_nat_small)
  then show ?thesis
    using \<open>n div 16 < 16\<close>
    by (simp add: format_02X_def zfill_def two_hex_digits_def digit_char_def)
qed

lemma calculate_checksum_xor:
  "calculate_checksum body = two_hex_digits (xor_of_codes body)"
  by (simp add: calculate_checksum_def fold_xor_codes format_02X_two_hex_digits
        xor_of_codes_less_256)

text \<open>Characters that can occur in a formatted number or in the time field.\<close>

lemma digit_char_number: "digit_char d \<in> number_chars"
  using digit_char_hex [of d] by (auto simp: upper_hex_digit_def number_chars_def)

lemma str_nat_number: "set (str_nat n) \<subseteq> number_chars"
proof (induction n rule: str_nat.induct)
  case (1 n)
  then show ?case
    by (subst str_nat.simps) (auto simp: digit_char_number)
qed

lemma zero_number: "CHR ''0'' \<in> number_chars"
  by (simp add: number_chars_def)

lemma zfill_number: "set s \<subseteq> number_chars \<Longrightarrow> set (zfill w s) \<subseteq> number_chars"
  using zero_number by (auto simp: zfill_def)

lemma format_d_number: "set (format_d w i) \<subseteq> number_chars"
  using zfill_number [OF str_nat_number]
  by (auto simp: format_d_def number_chars_def)

lemma format_f_number: "set (format_f p x) \<subseteq> number_chars"
proof (cases x)
  case (Finite a)
  have "set ''-'' \<subseteq> number_chars" "set ''.'' \<subseteq> number_chars"
    by (simp_all add: number_chars_def)
  then show ?thesis
    using Finite str_nat_number zfill_number [OF str_nat_number]
    by (auto simp: Let_def)
qed (simp_all add: number_chars_def)

lemma strftime_number: "set (strftime t) \<subseteq> number_chars"
  using zfill_number [OF str_nat_number]
  by (simp add: strftime_def number_chars_def)

lemma number_chars_delimiters: "CHR ''*'' \<notin> number_chars" "CHR '','' \<notin> number_chars"
  by (simp_all add: number_chars_def)

lemma number_no_delimiter:
  "set s \<subseteq> number_chars \<Longrightarrow> CHR ''*'' \<notin> set s" "set s \<subseteq> number_chars \<Longrightarrow> CHR '','' \<notin> set s"
  using number_chars_delimiters by auto

lemmas format_no_delimiter =
  number_no_delimiter [OF format_d_number] number_no_delimiter [OF format_f_number]
  number_no_delimiter [OF strftime_number]

lemma wrap_sentence_read_back:
  assumes "CHR ''*'' \<notin> set body"
  shows "hd (wrap_sentence body) = CHR ''$''"
    and "sentence_body (wrap_sentence body) = body"
    and "sentence_trailer (wrap_sentence body) = calculate_checksum body"
proof -
  have all: "\<forall>c\<in>set body. c \<noteq> CHR ''*''" using assms by auto
  show "hd (wrap_sentence body) = CHR ''$''"
    by (simp add: wrap_sentence_def)
  show "sentence_body (wrap_sentence body) = body"
    using all by (simp add: sentence_body_def wrap_sentence_def takeWhile_tail)
  show "sentence_trailer (wrap_sentence body) = calculate_checksum body"
    using all by (simp add: sentence_trailer_def wrap_sentence_def dropWhile_append3)
qed

lemma rmc_body_no_star:
  "CHR ''*'' \<notin> set t \<Longrightarrow> CHR ''*'' \<notin> set la \<Longrightarrow> CHR ''*'' \<notin> set h1 \<Longrightarrow>
   CHR ''*'' \<notin> set lo \<Longrightarrow> CHR ''*'' \<notin> set h2 \<Longrightarrow> CHR ''*'' \<notin> set (rmc_body t la h1 lo h2 v)"
  by (simp add: rmc_body_def format_no_delimiter)

lemma gga_body_no_star:
  "CHR ''*'' \<notin> set t \<Longrightarrow> CHR ''*'' \<notin> set la \<Longrightarrow> CHR ''*'' \<notin> set h1 \<Longrightarrow>
   CHR ''*'' \<notin> set lo \<Longrightarrow> CHR ''*'' \<notin> set h2 \<Longrightarrow> CHR ''*'' \<notin> set (gga_body t la h1 lo h2 v)"
  by (simp add: gga_body_def format_no_delimiter)

lemma vtg_body_no_star: "CHR ''*'' \<notin> set (vtg_body v)"
  by (simp add: vtg_body_def format_no_delimiter)

lemma split_commas_single: "CHR '','' \<notin> set a \<Longrightarrow> split_commas a = [a]"
  by (induction a) auto

lemma split_commas_field:
  "CHR '','' \<notin> set a \<Longrightarrow> split_commas (a @ CHR '','' # rest) = a # split_commas rest"
  by (induction a) auto

lemma gga_body_fields:
  assumes "CHR '','' \<notin> set t" "CHR '','' \<notin> set la" "CHR '','' \<notin> set h1"
    "CHR '','' \<notin> set lo" "CHR '','' \<notin> set h2"
  shows "split_commas (gga_body t la h1 lo h2 v) =
    [''GNGGA'', t, la, h1, lo, h2, ''1'', ''08'', ''0.9'', format_f 1 v, ''M'', ''0.0'', ''M'', [], []]"
  using assms format_no_delimiter(4) [of 1 v]
  by (simp add: gga_body_def split_commas_field)

lemma create_nmea_sentences_finite:
  "\<exists>t la h1 lo h2.
     create_nmea_sentences now (Finite lat) (Finite lon) alt speed =
       Inr [wrap_sentence (rmc_body t la h1 lo h2 speed),
            wrap_sentence (gga_body t la h1 lo h2 (fdiv alt (Finite 3.28084))),
            wrap_sentence (vtg_body speed)] \<and>
     CHR '','' \<notin> set t \<and> CHR '','' \<notin> set la \<and> CHR '','' \<notin> set h1 \<and>
     CHR '','' \<notin> set lo \<and> CHR '','' \<notin> set h2 \<and>
     CHR ''*'' \<notin> set t \<and> CHR ''*'' \<notin> set la \<and> CHR ''*'' \<notin> set h1 \<and>
     CHR ''*'' \<notin> set lo \<and> CHR ''*'' \<notin> set h2"
proof -
  define lat_deg :: int where "lat_deg = \<lfloor>\<bar>lat\<bar>\<rfloor>"
  define lon_deg :: int where "lon_deg = \<lfloor>\<bar>lon\<bar>\<rfloor>"
  define la where
    "la = format_d 2 lat_deg @
       format_f 6 (fmul (fsub (fabs (Finite lat)) (Finite (of_int lat_deg))) (Finite 60))"
  define lo where
    "lo = format_d 3 lon_deg @
       format_f 6 (fmul (fsub (fabs (Finite lon)) (Finite (of_int lon_deg))) (Finite 60))"
  define h1 where "h1 = (if fge (Finite lat) (Finite 0) then ''N'' else ''S'')"
  define h2 where "h2 = (if fge (Finite lon) (Finite 0) then ''E'' else ''W'')"
  have deg: "py_int (fabs (Finite lat)) = Inr lat_deg" "py_int (fabs (Finite lon)) = Inr lon_deg"
    by (simp_all add: lat_deg_def lon_deg_def)
  have "create_nmea_sentences now (Finite lat) (Finite lon) alt speed =
       Inr [wrap_sentence (rmc_body (strftime now) la h1 lo h2 speed),
            wrap_sentence (gga_body (strftime now) la h1 lo h2 (fdiv alt (Finite 3.28084))),
            wrap_sentence (vtg_body speed)]"
    unfolding create_nmea_sentences_def Let_def deg
    by (simp add: la_def lo_def h1_def h2_def)
  moreover have "CHR '','' \<notin> set la" "CHR '','' \<notin> set lo" "CHR '','' \<notin> set h1" "CHR '','' \<notin> set h2"
    "CHR ''*'' \<notin> set la" "CHR ''*'' \<notin> set lo" "CHR ''*'' \<notin> set h1" "CHR ''*'' \<notin> set h2"
    by (simp_all add: la_def lo_def h1_def h2_def format_no_delimiter)
  ultimately show ?thesis
    using format_no_delimiter(5,6) [of now] by blast
qed

lemma create_nmea_sentences_bodies:
  assumes "create_nmea_sentences now lat lon alt speed = Inr sentences"
  shows "\<exists>rmc gga vtg. sentences = [wrap_sentence rmc, wrap_sentence gga, wrap_sentence vtg] \<and>
           CHR ''*'' \<notin> set rmc \<and> CHR ''*'' \<notin> set gga \<and> CHR ''*'' \<notin> set vtg"
proof -
  from assms obtain lat_deg lon_deg where
    deg: "py_int (fabs lat) = Inr lat_deg" "py_int (fabs lon) = Inr lon_deg"
    unfolding create_nmea_sentences_def Let_def by (auto split: sum.splits)
  define lat_field where
    "lat_field = format_d 2 lat_deg @
       format_f 6 (fmul (fsub (fabs lat) (Finite (of_int lat_deg))) (Finite 60))"
  define lon_field where
    "lon_field = format_d 3 lon_deg @
       format_f 6 (fmul (fsub (fabs lon) (Finite (of_int lon_deg))) (Finite 60))"
  define lat_hemisphere where "lat_hemisphere = (if fge lat (Finite 0) then ''N'' else ''S'')"
  define lon_hemisphere where "lon_hemisphere = (if fge lon (Finite 0) then ''E'' else ''W'')"
  define rmc where
    "rmc = rmc_body (strftime now) lat_field lat_hemisphere lon_field lon_hemisphere speed"
  define gga where
    "gga = gga_body (strftime now) lat_field lat_hemisphere lon_field lon_hemisphere
             (fdiv alt (Finite 3.28084))"
  have fields: "CHR ''*'' \<notin> set lat_field" "CHR ''*'' \<notin> set lon_field"
    "CHR ''*'' \<notin> set lat_hemisphere" "CHR ''*'' \<notin> set lon_hemisphere"
    by (simp_all add: lat_field_def lon_field_def lat_hemisphere_def lon_hemisphere_def
          format_no_delimiter)
  have "sentences = [wrap_sentence rmc, wrap_sentence gga, wrap_sentence (vtg_body speed)]"
    using assms deg
    by (simp add: create_nmea_sentences_def Let_def rmc_def gga_def lat_field_def lon_field_def
          lat_hemisphere_def lon_hemisphere_def)
  moreover have "CHR ''*'' \<notin> set rmc"
    unfolding rmc_def by (intro rmc_body_no_star format_no_delimiter fields)
  moreover have "CHR ''*'' \<notin> set gga"
    unfolding gga_def by (intro gga_body_no_star format_no_delimiter fields)
  ultimately show ?thesis
    using vtg_body_no_star by blast
qed

text \<open>
  With a latitude that is NaN or infinite the conversion \<^verbatim>\<open>int(abs(lat))\<close> raises, and
  no sentence is returned.
\<close>

lemma create_nmea_sentences_not_finite:
  "create_nmea_sentences now NaN lon alt speed = Inl ValueError"
  "create_nmea_sentences now PosInf lon alt speed = Inl OverflowError"
  "create_nmea_sentences now NegInf lon alt speed = Inl OverflowError"
  by (simp_all add: create_nmea_sentences_def)

text \<open>One call of the encoder, evaluated.\<close>

lemma str_nat_examples:
  "str_nat 0 = ''0''" "str_nat 5 = ''5''" "str_nat 7 = ''7''" "str_nat 9 = ''9''"
  "str_nat 11 = ''11''" "str_nat 15 = ''15''" "str_nat 30 = ''30''" "str_nat 50 = ''50''"
  "str_nat 57 = ''57''" "str_nat 59 = ''59''" "str_nat 100 = ''100''"
  by (simp_all add: str_nat.simps digit_char_def)

lemma replicate_small:
  "replicate 2 c = [c, c]" "replicate 3 c = [c, c, c]" "replicate 4 c = [c, c, c, c]"
  "replicate 5 c = [c, c, c, c, c]"
  by (simp_all add: numeral_eq_Suc)

lemma format_examples:
  "strftime \<lparr>tm_hour = 9, tm_min = 5, tm_sec = 59\<rparr> = ''090559.6''"
  "format_d 2 57 = ''57''" "format_d 3 11 = ''011''"
  "format_f 6 (Finite 30) = ''30.000000''" "format_f 6 (Finite 15) = ''15.000000''"
  "format_f 2 (Finite 7.5) = ''7.50''" "format_f 1 (Finite 100) = ''100.0''"
  by (simp_all add: strftime_def format_d_def zfill_def round_half_even_def str_nat_examples replicate_small)

lemma body_examples:
  "py_int (fabs (Finite 57.5)) = Inr 57" "py_int (fabs (Finite (- 11.25))) = Inr 11"
  "fmul (fsub (fabs (Finite 57.5)) (Finite (of_int 57))) (Finite 60) = Finite 30"
  "fmul (fsub (fabs (Finite (- 11.25))) (Finite (of_int 11))) (Finite 60) = Finite 15"
  "fdiv (Finite 328.084) (Finite 3.28084) = Finite 100"
  "fge (Finite 57.5) (Finite 0)" "\<not> fge (Finite (- 11.25)) (Finite 0)"
  by (simp_all add: fsub_def fge_def fle_def)

lemma checksum_examples:
  "calculate_checksum ''GNRMC,090559.6,A,5730.000000,N,01115.000000,W,7.50,,,002.7,E,N'' = ''1C''"
  "calculate_checksum ''GNGGA,090559.6,5730.000000,N,01115.000000,W,1,08,0.9,100.0,M,0.0,M,,'' = ''63''"
  "calculate_checksum ''GNVTG,,T,,M,7.50,N,,K,N'' = ''2E''"
  by (simp_all add: calculate_checksum_def format_02X_def zfill_def hex_nat.simps digit_char_def)

lemma create_nmea_sentences_example:
  "create_nmea_sentences \<lparr>tm_hour = 9, tm_min = 5, tm_sec = 59\<rparr>
     (Finite 57.5) (Finite (- 11.25)) (Finite 328.084) (Finite 7.5) =
   Inr [''$GNRMC,090559.6,A,5730.000000,N,01115.000000,W,7.50,,,002.7,E,N*1C'',
        ''$GNGGA,090559.6,5730.000000,N,01115.000000,W,1,08,0.9,100.0,M,0.0,M,,*63'',
        ''$GNVTG,,T,,M,7.50,N,,K,N*2E'']"
  by (simp only: create_nmea_sentences_def Let_def body_examples sum.case if_True if_False
        format_examples rmc_body_def gga_body_def vtg_body_def wrap_sentence_def
        append.simps checksum_examples)

subsection \<open>Worked examples of the position update\<close>







lemma degrees_isnan: "isnan (degrees x) = isnan x"
  by (cases x) simp_all

section \<open>Properties of the position update\<close>

text \<open>
  Claim C9. If the travel distance \<open>speed_knots * 1.852 * (interval / 3600)\<close> is less
  than or equal to zero, \<^const>\<open>update_position\<close> returns the input latitude and
  longitude unchanged and raises nothing; this is the case in particular for a speed
  that is zero or negative (and a non-negative interval).
\<close>

theorem update_position_nonpositive_distance:
  "(fle (distance_km interval speed) (Finite 0) \<longrightarrow>
      update_position interval lat lon bearing speed = Inr (lat, lon)) \<and>
   (\<forall>s d. s \<le> 0 \<and> 0 \<le> d \<longrightarrow>
      update_position (Finite d) lat lon bearing (Finite s) = Inr (lat, lon))"
proof -
  have "fle (distance_km (Finite d) (Finite s)) (Finite 0)" if "s \<le> 0" "0 \<le> d" for s d :: real
  proof -
    have "s * 1.852 * (d / 3600) \<le> 0"
      using that by (simp add: mult_nonpos_nonneg)
    then show ?thesis
      by (auto simp: distance_km_def fle_def)
  qed
  then show ?thesis
    by (simp add: update_position_def)
qed

theorem update_position_nonpositive_distance_witness:
  "fle (distance_km (Finite 1) (Finite 0)) (Finite 0) \<and>
   update_position (Finite 1) (Finite 57) (Finite 11) (Finite 90) (Finite 0)
     = Inr (Finite 57, Finite 11) \<and>
   update_position (Finite 1) (Finite 57) (Finite 11) (Finite 90) (Finite (- 5))
     = Inr (Finite 57, Finite 11)"
proof -
  have d: "fle (distance_km (Finite 1) (Finite 0)) (Finite 0)"
    by (simp add: distance_km_def fle_def)
  from update_position_nonpositive_distance
    [of "Finite 1" "Finite 0" "Finite 57" "Finite 11" "Finite 90"] d
  show ?thesis by simp
qed




text \<open>
  Claim C7. For every finite input position, whatever the interval, bearing and speed:
  whenever the latitude or the longitude computed inside \<^const>\<open>update_position\<close> is
  not a finite number (NaN or infinite), the function returns the input position
  unchanged, as an ordinary result; and a position it returns is either the input
  position or has two finite coordinates.
\<close>

theorem update_position_nonfinite_guard:
  "(\<not> fle (distance_km interval speed) (Finite 0) \<and>
    geodesic (radians (Finite lat)) (radians (Finite lon)) (radians (normalized_bearing bearing))
      (distance_km interval speed) = Inr (new_lat, new_lon) \<and>
    (\<not> is_finite new_lat \<or> \<not> is_finite new_lon) \<longrightarrow>
      update_position interval (Finite lat) (Finite lon) bearing speed =
        Inr (Finite lat, Finite lon)) \<and>
   (update_position interval (Finite lat) (Finite lon) bearing speed = Inr (lat', lon') \<longrightarrow>
      (lat', lon') = (Finite lat, Finite lon) \<or> (is_finite lat' \<and> is_finite lon'))"
proof (intro conjI impI)
  let ?g = "geodesic (radians (Finite lat)) (radians (Finite lon))
      (radians (normalized_bearing bearing)) (distance_km interval speed)"
  assume h: "\<not> fle (distance_km interval speed) (Finite 0) \<and>
    ?g = Inr (new_lat, new_lon) \<and> (\<not> is_finite new_lat \<or> \<not> is_finite new_lon)"
  then have "isnan new_lat \<or> isnan new_lon"
    using geodesic_finite_or_nan [of "radians (Finite lat)" "lon * pi / 180"
        "radians (normalized_bearing bearing)" "distance_km interval speed" new_lat new_lon]
    by auto
  with h show "update_position interval (Finite lat) (Finite lon) bearing speed =
      Inr (Finite lat, Finite lon)"
    by (auto simp: update_position_def)
next
  let ?g = "geodesic (radians (Finite lat)) (radians (Finite lon))
      (radians (normalized_bearing bearing)) (distance_km interval speed)"
  assume u: "update_position interval (Finite lat) (Finite lon) bearing speed = Inr (lat', lon')"
  show "(lat', lon') = (Finite lat, Finite lon) \<or> (is_finite lat' \<and> is_finite lon')"
  proof (cases ?g)
    case (Inl e)
    then have "e = ValueError" by (rule geodesic_error)
    with Inl u show ?thesis
      by (auto simp: update_position_def Let_def split: if_splits)
  next
    case (Inr p)
    obtain nl nlo where p: "p = (nl, nlo)" by (cases p)
    from Inr p geodesic_finite_or_nan [of "radians (Finite lat)" "lon * pi / 180"
        "radians (normalized_bearing bearing)" "distance_km interval speed" nl nlo]
    have "(isnan nl \<or> is_finite nl) \<and> (isnan nlo \<or> is_finite nlo)"
      by simp
    with Inr p u show ?thesis
      by (auto simp: update_position_def Let_def degrees_is_finite split: if_splits)
  qed
qed

theorem update_position_nonfinite_guard_witness:
  "\<not> fle (distance_km (Finite 1) (Finite 5)) (Finite 0) \<and>
   geodesic (radians (Finite 57)) (radians (Finite 11)) (radians (normalized_bearing NaN))
     (distance_km (Finite 1) (Finite 5)) = Inr (NaN, NaN) \<and>
   \<not> is_finite NaN \<and>
   update_position (Finite 1) (Finite 57) (Finite 11) NaN (Finite 5) = Inr (Finite 57, Finite 11)"
proof -
  have d: "\<not> fle (distance_km (Finite 1) (Finite 5)) (Finite 0)"
    by (simp add: distance_km_def fle_def)
  have g: "geodesic (radians (Finite 57)) (radians (Finite 11)) (radians (normalized_bearing NaN))
     (distance_km (Finite 1) (Finite 5)) = Inr (NaN, NaN)"
    by (simp add: geodesic_def normalized_bearing_def distance_km_def EARTH_RADIUS_KM_def)
  from update_position_nonfinite_guard
    [of "Finite 1" "Finite 5" 57 11 NaN NaN NaN] d g
  show ?thesis by simp
qed




text \<open>
  Claim C10. \<^const>\<open>update_position\<close> returns a position for every input, NaN and the
  infinities included, and never raises; whenever the geodesic computation raises, the
  input position is returned unchanged.
\<close>

theorem update_position_total:
  "(\<exists>p. update_position interval lat lon bearing speed = Inr p) \<and>
   (\<not> fle (distance_km interval speed) (Finite 0) \<and>
    geodesic (radians lat) (radians lon) (radians (normalized_bearing bearing))
      (distance_km interval speed) = Inl e \<longrightarrow>
      update_position interval lat lon bearing speed = Inr (lat, lon))"
proof -
  let ?g = "geodesic (radians lat) (radians lon) (radians (normalized_bearing bearing))
              (distance_km interval speed)"
  have caught: "update_position interval lat lon bearing speed = Inr (lat, lon)" if "?g = Inl e" for e
  proof -
    from that have "e = ValueError" by (rule geodesic_error)
    with that show ?thesis by (simp add: update_position_def Let_def)
  qed
  have "\<exists>p. update_position interval lat lon bearing speed = Inr p"
  proof (cases ?g)
    case (Inl e)
    then show ?thesis using caught by blast
  next
    case (Inr p)
    then show ?thesis
      by (cases p) (simp add: update_position_def Let_def)
  qed
  with caught show ?thesis by blast
qed

theorem update_position_total_witness:
  "\<not> fle (distance_km (Finite 1) (Finite 5)) (Finite 0) \<and>
   geodesic (radians PosInf) (radians (Finite 11)) (radians (normalized_bearing (Finite 90)))
     (distance_km (Finite 1) (Finite 5)) = Inl ValueError \<and>
   update_position (Finite 1) PosInf (Finite 11) (Finite 90) (Finite 5) = Inr (PosInf, Finite 11)"
proof -
  have d: "\<not> fle (distance_km (Finite 1) (Finite 5)) (Finite 0)"
    by (simp add: distance_km_def fle_def)
  have g: "geodesic (radians PosInf) (radians (Finite 11)) (radians (normalized_bearing (Finite 90)))
     (distance_km (Finite 1) (Finite 5)) = Inl ValueError"
    by (simp add: geodesic_def)
  from update_position_total
    [of "Finite 1" PosInf "Finite 11" "Finite 90" "Finite 5" ValueError] d g
  show ?thesis by simp
qed

section \<open>Properties of the wind profile\<close>




text \<open>
  Claim C1. The claim is that a query strictly below the lowest row returns the lowest
  row's bearing and speed, and a query strictly above the highest row the highest row's.
  In the source the row below and the row above are both taken with \<^verbatim>\<open>iloc\<close> before
  either of the two \<^verbatim>\<open>.empty\<close> tests, so on the profile with rows at 1000 ft and
  2000 ft the query at 500 ft and the query at 2500 ft both raise \<^verbatim>\<open>IndexError\<close>.
\<close>

theorem interpolate_wind_outside_raises:
  "interpolate_wind
     [\<lparr>height_ft = Finite 1000, bearing_deg = Finite 90, speed_knots = Finite 5\<rparr>,
      \<lparr>height_ft = Finite 2000, bearing_deg = Finite 180, speed_knots = Finite 10\<rparr>]
     (Finite 500) = Inl IndexError \<and>
   interpolate_wind
     [\<lparr>height_ft = Finite 1000, bearing_deg = Finite 90, speed_knots = Finite 5\<rparr>,
      \<lparr>height_ft = Finite 2000, bearing_deg = Finite 180, speed_knots = Finite 10\<rparr>]
     (Finite 2500) = Inl IndexError"
  by (simp add: interpolate_wind_no_lower interpolate_wind_no_upper fle_def fge_def)

text \<open>
  Claim C2, as amended. An empty wind profile is not rejected at start-up: with the
  serial port open the script reaches its loop, every wind query on the empty profile
  raises \<^verbatim>\<open>IndexError\<close>, and so does every turn of the loop.
\<close>

theorem empty_profile_not_rejected:
  "startup True [] = Running \<and>
   (\<forall>altitude_ft. interpolate_wind [] altitude_ft = Inl IndexError) \<and>
   (\<forall>now st. tick [] now st = Inl IndexError)"
  by (simp add: startup_def tick_def interpolate_wind_no_lower)

text \<open>
  Claim C2 as stated fails: started with an empty profile the loop is entered, and its
  first turn fails in the wind query.
\<close>

theorem empty_profile_counterexample:
  "startup True [] = Running \<and>
   tick [] \<lparr>tm_hour = 12, tm_min = 0, tm_sec = 0\<rparr> initial_state = Inl IndexError"
  by (simp add: startup_def tick_def interpolate_wind_no_lower)


section \<open>Properties of the NMEA sentences\<close>

text \<open>
  Claim C3. For every sentence produced by \<^const>\<open>create_nmea_sentences\<close>, the sentence
  starts with \<^verbatim>\<open>$\<close>; the XOR of the character codes of the characters strictly between
  that \<^verbatim>\<open>$\<close> and the \<^verbatim>\<open>*\<close> is below 256, and its rendering as two uppercase
  hexadecimal digits is exactly what follows the \<^verbatim>\<open>*\<close>.
\<close>

theorem checksum_round_trip:
  assumes "create_nmea_sentences now lat lon alt speed = Inr sentences"
    and "s \<in> set sentences"
  shows "hd s = CHR ''$'' \<and>
         xor_of_codes (sentence_body s) < 256 \<and>
         sentence_trailer s = two_hex_digits (xor_of_codes (sentence_body s))"
proof -
  from create_nmea_sentences_bodies [OF assms(1)] assms(2)
  obtain body where "s = wrap_sentence body" and "CHR ''*'' \<notin> set body"
    by auto
  then show ?thesis
    by (simp add: wrap_sentence_read_back calculate_checksum_xor xor_of_codes_less_256)
qed

theorem checksum_round_trip_witness:
  "create_nmea_sentences \<lparr>tm_hour = 9, tm_min = 5, tm_sec = 59\<rparr>
     (Finite 57.5) (Finite (- 11.25)) (Finite 328.084) (Finite 7.5) =
   Inr [''$GNRMC,090559.6,A,5730.000000,N,01115.000000,W,7.50,,,002.7,E,N*1C'',
        ''$GNGGA,090559.6,5730.000000,N,01115.000000,W,1,08,0.9,100.0,M,0.0,M,,*63'',
        ''$GNVTG,,T,,M,7.50,N,,K,N*2E''] \<and>
   sentence_body ''$GNVTG,,T,,M,7.50,N,,K,N*2E'' = ''GNVTG,,T,,M,7.50,N,,K,N'' \<and>
   xor_of_codes ''GNVTG,,T,,M,7.50,N,,K,N'' = 46 \<and>
   two_hex_digits 46 = ''2E'' \<and>
   sentence_trailer ''$GNVTG,,T,,M,7.50,N,,K,N*2E'' =
     two_hex_digits (xor_of_codes (sentence_body ''$GNVTG,,T,,M,7.50,N,,K,N*2E''))"
proof -
  have b: "sentence_body ''$GNVTG,,T,,M,7.50,N,,K,N*2E'' = ''GNVTG,,T,,M,7.50,N,,K,N''"
    by (simp add: sentence_body_def)
  have x: "xor_of_codes ''GNVTG,,T,,M,7.50,N,,K,N'' = 46"
    by simp
  have h: "two_hex_digits 46 = ''2E''"
    by (simp add: two_hex_digits_def)
  from checksum_round_trip [OF create_nmea_sentences_example,
      of "''$GNVTG,,T,,M,7.50,N,,K,N*2E''"]
  have "sentence_trailer ''$GNVTG,,T,,M,7.50,N,,K,N*2E'' =
     two_hex_digits (xor_of_codes (sentence_body ''$GNVTG,,T,,M,7.50,N,,K,N*2E''))"
    by simp
  with create_nmea_sentences_example b x h show ?thesis by blast
qed

text \<open>
  Claim C6. For a finite latitude and longitude (and any altitude and speed),
  \<^const>\<open>create_nmea_sentences\<close> returns exactly three sentences, in the order
  \<^verbatim>\<open>$GNRMC\<close>, \<^verbatim>\<open>$GNGGA\<close>, \<^verbatim>\<open>$GNVTG\<close>, and the altitude field of the
  \<^verbatim>\<open>$GNGGA\<close> sentence (its tenth comma-separated field) is the input altitude divided by
  3.28084, formatted with one decimal.
\<close>

theorem create_nmea_sentences_three:
  "\<exists>rmc gga vtg.
     create_nmea_sentences now (Finite lat) (Finite lon) alt speed = Inr [rmc, gga, vtg] \<and>
     take 7 rmc = ''$GNRMC,'' \<and> take 7 gga = ''$GNGGA,'' \<and> take 7 vtg = ''$GNVTG,'' \<and>
     split_commas (sentence_body gga) ! 9 = format_f 1 (fdiv alt (Finite 3.28084))"
proof -
  from create_nmea_sentences_finite [of now lat lon alt speed]
  obtain t la h1 lo h2 where
    res: "create_nmea_sentences now (Finite lat) (Finite lon) alt speed =
       Inr [wrap_sentence (rmc_body t la h1 lo h2 speed),
            wrap_sentence (gga_body t la h1 lo h2 (fdiv alt (Finite 3.28084))),
            wrap_sentence (vtg_body speed)]"
    and comma: "CHR '','' \<notin> set t" "CHR '','' \<notin> set la" "CHR '','' \<notin> set h1"
      "CHR '','' \<notin> set lo" "CHR '','' \<notin> set h2"
    and star: "CHR ''*'' \<notin> set t" "CHR ''*'' \<notin> set la" "CHR ''*'' \<notin> set h1"
      "CHR ''*'' \<notin> set lo" "CHR ''*'' \<notin> set h2"
    by blast
  let ?gga = "gga_body t la h1 lo h2 (fdiv alt (Finite 3.28084))"
  have "CHR ''*'' \<notin> set ?gga"
    using star by (rule gga_body_no_star)
  then have "sentence_body (wrap_sentence ?gga) = ?gga"
    by (rule wrap_sentence_read_back)
  then have "split_commas (sentence_body (wrap_sentence ?gga)) ! 9 =
      format_f 1 (fdiv alt (Finite 3.28084))"
    by (simp add: gga_body_fields [OF comma])
  moreover have "take 7 (wrap_sentence (rmc_body t la h1 lo h2 speed)) = ''$GNRMC,''"
    "take 7 (wrap_sentence ?gga) = ''$GNGGA,''"
    "take 7 (wrap_sentence (vtg_body speed)) = ''$GNVTG,''"
    by (simp_all add: wrap_sentence_def rmc_body_def gga_body_def vtg_body_def)
  ultimately show ?thesis
    using res by blast
qed

end
